theory Spec2Isabelle
  imports Main "HOL-Library.Word"
begin

section \<open>JavaScript strings\<close>

text \<open>
  Identifiers, script texts and binary strings are JavaScript strings; they are modelled
  as \<^typ>\<open>string\<close>, a list of characters with the codes 0 to 255. Code units above
  255 are not represented: the patches compare with ASCII patterns only, and \<open>atob\<close>
  rejects them like every other character outside its alphabet. The string methods the
  patches use are \<open>startsWith\<close>, \<open>indexOf\<close> (first position of a pattern, or \<open>-1\<close>),
  \<open>substring\<close>, \<open>slice\<close> and \<open>split\<close>.
\<close>

definition startsWith :: "string \<Rightarrow> string \<Rightarrow> bool" where
  "startsWith s p = (take (length p) s = p)"

fun indexOf_from :: "nat \<Rightarrow> string \<Rightarrow> string \<Rightarrow> int" where
  "indexOf_from i [] p = (if p = [] then int i else - 1)"
| "indexOf_from i (c # cs) p =
     (if startsWith (c # cs) p then int i else indexOf_from (Suc i) cs p)"

definition indexOf :: "string \<Rightarrow> string \<Rightarrow> int" where
  "indexOf s p = indexOf_from 0 s p"

text \<open>\<open>s.substring(a, b)\<close>: both ends are clamped to the length and swapped when \<open>a > b\<close>.\<close>

definition substring :: "string \<Rightarrow> nat \<Rightarrow> nat \<Rightarrow> string" where
  "substring s a b = (let lo = min a b; hi = max a b in take (hi - lo) (drop lo s))"

text \<open>\<open>s.slice(a)\<close> for a non-negative start.\<close>

definition slice_js :: "string \<Rightarrow> nat \<Rightarrow> string" where
  "slice_js s a = drop a s"

text \<open>\<open>s.split(';')[0]\<close>: the text before the first semicolon.\<close>

definition split_first :: "char \<Rightarrow> string \<Rightarrow> string" where
  "split_first d s = takeWhile (\<lambda>c. c \<noteq> d) s"

section \<open>The codec-file rule\<close>

text \<open>
  Every override tests the requested identifier against the same three name fragments
  (\<open>url.indexOf(...) !== -1\<close>).
\<close>

definition isDracoFile :: "string \<Rightarrow> bool" where
  "isDracoFile url \<longleftrightarrow>
     indexOf url ''draco.wasm.js'' \<noteq> - 1 \<or>
     indexOf url ''draco.wasm.wasm'' \<noteq> - 1 \<or>
     indexOf url ''draco.js'' \<noteq> - 1"

section \<open>Base64: the platform's \<open>atob\<close>\<close>

text \<open>
  \<open>window.atob\<close> is the forgiving-base64 decoder of the HTML standard: ASCII whitespace
  is removed; when the remaining length is a multiple of four, one or two trailing
  \<open>=\<close> are removed; a length of remainder one, or any character outside the base64
  alphabet, raises \<open>InvalidCharacterError\<close>; otherwise every character contributes six
  bits, every 24 bits give three bytes, and a rest of 12 or 18 bits gives one or two bytes.
  The result is a binary string: one character per byte.
\<close>

datatype js_error = Error string | InvalidCharacterError | SyntaxError | TypeError

definition is_ascii_whitespace :: "char \<Rightarrow> bool" where
  "is_ascii_whitespace c \<longleftrightarrow> (of_char c :: nat) \<in> {9, 10, 12, 13, 32}"

definition b64_value :: "char \<Rightarrow> nat option" where
  "b64_value c =
     (let n = (of_char c :: nat) in
      if 65 \<le> n \<and> n \<le> 90 then Some (n - 65)
      else if 97 \<le> n \<and> n \<le> 122 then Some (n - 71)
      else if 48 \<le> n \<and> n \<le> 57 then Some (n + 4)
      else if n = 43 then Some 62
      else if n = 47 then Some 63
      else None)"

definition strip_padding :: "string \<Rightarrow> string" where
  "strip_padding s =
     (if length s mod 4 = 0 then
        (if 2 \<le> length s \<and> drop (length s - 2) s = ''=='' then take (length s - 2) s
         else if 1 \<le> length s \<and> drop (length s - 1) s = ''='' then take (length s - 1) s
         else s)
      else s)"

fun decode_sextets :: "nat list \<Rightarrow> nat list" where
  "decode_sextets (a # b # c # d # rest) =
     (let n = ((a * 64 + b) * 64 + c) * 64 + d
      in n div 65536 # (n div 256) mod 256 # n mod 256 # decode_sextets rest)"
| "decode_sextets [a, b, c] =
     (let n = ((a * 64 + b) * 64 + c) div 4 in [n div 256, n mod 256])"
| "decode_sextets [a, b] = [(a * 64 + b) div 16]"
| "decode_sextets _ = []"

definition atob :: "string \<Rightarrow> js_error + string" where
  "atob s =
     (let d = strip_padding (filter (\<lambda>c. \<not> is_ascii_whitespace c) s) in
      if length d mod 4 = 1 then Inl InvalidCharacterError
      else if list_ex (\<lambda>c. b64_value c = None) d then Inl InvalidCharacterError
      else Inr (map char_of (decode_sextets (map (\<lambda>c. the (b64_value c)) d))))"

section \<open>The data-URL transport decoder: \<open>pc.Http.prototype.get\<close>\<close>

text \<open>
  \<open>get(url, options, callback)\<close> either invokes a callback with \<open>(err, data)\<close> or lets an
  exception of a platform primitive escape to its caller. When \<open>options\<close> is a function
  it is taken as the callback and the options are empty. The identifier is a string, so the
  \<open>typeof url === 'string'\<close> guard of the codec-file test holds. \<open>JSON.parse\<close> is a
  platform primitive and is a parameter of the model; \<open>options.responseType\<close> is compared
  with the host engine's \<open>pc.Http.ResponseType.JSON\<close>.
\<close>

datatype response_type = TEXT | ARRAY_BUFFER | BLOB | DOCUMENT | JSON

datatype json = JNull | JBool bool | JNumber int | JString string
  | JArray "json list" | JObject "(string \<times> json) list"

datatype response = RNull | RString string | RJson json
  | RArrayBuffer "8 word list" | RBlob "8 word list" string

datatype options_arg = OptionsFunction | OptionsObject "response_type option"

datatype callee = CallbackArgument | OptionsArgument

datatype outcome = Callback callee "js_error option" response | Throws js_error

definition get :: "(string \<Rightarrow> js_error + json) \<Rightarrow> string \<Rightarrow> options_arg \<Rightarrow> outcome" where
  "get JSON_parse url options =
     (let callback = (case options of OptionsFunction \<Rightarrow> OptionsArgument
                                    | OptionsObject _ \<Rightarrow> CallbackArgument);
          responseType = (case options of OptionsFunction \<Rightarrow> None
                                        | OptionsObject rt \<Rightarrow> rt)
      in
      if isDracoFile url then Callback callback None (RString [])
      else if \<not> startsWith url ''data:'' then
        Callback callback (Some (Error ''Invalid data URL format'')) RNull
      else
        let index = indexOf url '','' in
        if index = - 1 then Callback callback (Some (Error ''Invalid data URL'')) RNull
        else
          let mimeInfo = substring url 5 (nat index);
              base64 = slice_js url (nat index + 1)
          in
          case atob base64 of
            Inl e \<Rightarrow> Throws e
          | Inr data \<Rightarrow>
              let mimeType = split_first CHR '';'' mimeInfo;
                  isJson = (startsWith url ''data:application/json'' \<or> responseType = Some JSON);
                  isText = (startsWith url ''data:text/plain'' \<or> startsWith url ''data:text/javascript'');
                  isImage = startsWith url ''data:image/'';
                  isWasm = (startsWith url ''data:application/wasm'' \<or> indexOf mimeInfo ''wasm'' \<noteq> - 1);
                  isGlb = (startsWith url ''data:application/octet-stream'' \<or>
                           indexOf mimeInfo ''octet-stream'' \<noteq> - 1)
              in
              if isJson then
                (case JSON_parse data of
                   Inl e \<Rightarrow> Throws e
                 | Inr v \<Rightarrow> Callback callback None (RJson v))
              else if isText then Callback callback None (RString data)
              else
                let bytes = map (\<lambda>c. of_nat (of_char c)) data in
                if isImage then Callback callback None (RBlob bytes mimeType)
                else if isWasm then Callback callback None (RArrayBuffer bytes)
                else if isGlb then Callback callback None (RArrayBuffer bytes)
                else Callback callback None (RArrayBuffer bytes))"

subsection \<open>Encoding bytes as a base64 data URL\<close>

text \<open>
  Modelled from the spec: the encoder of the round-trip property (section 8) belongs to the
  packaging step, which is not part of the sources. It is standard base64 with padding:
  three bytes give four characters of the alphabet \<open>A-Z a-z 0-9 + /\<close>, and a last group
  of one or two bytes is padded with \<open>=\<close>. The data URL is the prefix
  \<open>data:application/octet-stream;base64,\<close> followed by the encoding.
\<close>

definition b64_char :: "nat \<Rightarrow> char" where
  "b64_char n =
     char_of (if n < 26 then n + 65 else if n < 52 then n + 71
              else if n < 62 then n - 4 else if n = 62 then 43 else (47::nat))"

fun btoa_bytes :: "nat list \<Rightarrow> string" where
  "btoa_bytes (a # b # c # rest) =
     b64_char (a div 4) # b64_char ((a mod 4) * 16 + b div 16) #
     b64_char ((b mod 16) * 4 + c div 64) # b64_char (c mod 64) # btoa_bytes rest"
| "btoa_bytes [a, b] =
     [b64_char (a div 4), b64_char ((a mod 4) * 16 + b div 16),
      b64_char ((b mod 16) * 4), CHR ''='']"
| "btoa_bytes [a] = [b64_char (a div 4), b64_char ((a mod 4) * 16), CHR ''='', CHR ''='']"
| "btoa_bytes [] = []"

definition base64_encode :: "8 word list \<Rightarrow> string" where
  "base64_encode bs = btoa_bytes (map unat bs)"

definition octet_stream_data_url :: "8 word list \<Rightarrow> string" where
  "octet_stream_data_url bs = ''data:application/octet-stream;base64,'' @ base64_encode bs"

text \<open>The sextets and the padding of an encoding, taken apart for the proofs.\<close>

fun b64_body :: "nat list \<Rightarrow> nat list" where
  "b64_body (a # b # c # rest) =
     a div 4 # ((a mod 4) * 16 + b div 16) # ((b mod 16) * 4 + c div 64) # (c mod 64) #
     b64_body rest"
| "b64_body [a, b] = [a div 4, (a mod 4) * 16 + b div 16, (b mod 16) * 4]"
| "b64_body [a] = [a div 4, (a mod 4) * 16]"
| "b64_body [] = []"

fun b64_pad :: "nat list \<Rightarrow> string" where
  "b64_pad (a # b # c # rest) = b64_pad rest"
| "b64_pad [a, b] = ''=''"
| "b64_pad [a] = ''==''"
| "b64_pad [] = []"

subsection \<open>A reference \<open>JSON.parse\<close>\<close>

text \<open>
  A parser for the part of the JSON grammar without string escapes, fractions and
  exponents (those texts are rejected here). It instantiates the \<open>JSON_parse\<close> parameter of
  \<open>get\<close> at concrete inputs. The recursion is bounded by the length of the text: every
  nested call happens after at least one character was consumed.
\<close>

definition is_json_ws :: "char \<Rightarrow> bool" where
  "is_json_ws c \<longleftrightarrow> (of_char c :: nat) \<in> {9, 10, 13, 32}"

definition skip_ws :: "string \<Rightarrow> string" where
  "skip_ws s = dropWhile is_json_ws s"

definition is_digit :: "char \<Rightarrow> bool" where
  "is_digit c \<longleftrightarrow> 48 \<le> (of_char c :: nat) \<and> (of_char c :: nat) \<le> 57"

fun parse_digits :: "string \<Rightarrow> nat \<Rightarrow> nat \<times> string" where
  "parse_digits [] acc = (acc, [])"
| "parse_digits (c # cs) acc =
     (if is_digit c then parse_digits cs (acc * 10 + (of_char c - 48)) else (acc, c # cs))"

definition parse_number :: "string \<Rightarrow> (json \<times> string) option" where
  "parse_number s =
     (let neg = startsWith s ''-'';
          t = (if neg then tl s else s)
      in
      if t = [] \<or> \<not> is_digit (hd t) then None
      else if hd t = CHR ''0'' \<and> tl t \<noteq> [] \<and> is_digit (hd (tl t)) then None
      else
        let (n, r) = parse_digits t 0 in
        if r \<noteq> [] \<and> hd r \<in> {CHR ''.'', CHR ''e'', CHR ''E''} then None
        else Some (JNumber (if neg then - int n else int n), r))"

definition parse_string_body :: "string \<Rightarrow> (string \<times> string) option" where
  "parse_string_body s =
     (let str = takeWhile (\<lambda>c. c \<noteq> CHR 0x22) s;
          r = dropWhile (\<lambda>c. c \<noteq> CHR 0x22) s
      in
      if r = [] \<or> list_ex (\<lambda>c. c = CHR 0x5C \<or> (of_char c :: nat) < 32) str then None
      else Some (str, tl r))"

fun parse_value :: "nat \<Rightarrow> string \<Rightarrow> (json \<times> string) option"
  and parse_elements :: "nat \<Rightarrow> string \<Rightarrow> (json list \<times> string) option"
  and parse_members :: "nat \<Rightarrow> string \<Rightarrow> ((string \<times> json) list \<times> string) option" where
  "parse_value 0 s = None"
| "parse_value (Suc n) s =
     (let t = skip_ws s in
      if t = [] then None
      else if hd t = CHR ''{'' then
        (if startsWith (skip_ws (tl t)) ''}'' then Some (JObject [], tl (skip_ws (tl t)))
         else map_option (\<lambda>(ms, r). (JObject ms, r)) (parse_members n (tl t)))
      else if hd t = CHR ''['' then
        (if startsWith (skip_ws (tl t)) '']'' then Some (JArray [], tl (skip_ws (tl t)))
         else map_option (\<lambda>(vs, r). (JArray vs, r)) (parse_elements n (tl t)))
      else if hd t = CHR 0x22 then
        map_option (\<lambda>(x, r). (JString x, r)) (parse_string_body (tl t))
      else if startsWith t ''true'' then Some (JBool True, drop 4 t)
      else if startsWith t ''false'' then Some (JBool False, drop 5 t)
      else if startsWith t ''null'' then Some (JNull, drop 4 t)
      else parse_number t)"
| "parse_elements 0 s = None"
| "parse_elements (Suc n) s =
     (case parse_value n s of
        None \<Rightarrow> None
      | Some (v, r) \<Rightarrow>
          let t = skip_ws r in
          if startsWith t '','' then
            (case parse_elements n (tl t) of
               None \<Rightarrow> None
             | Some (vs, r') \<Rightarrow> Some (v # vs, r'))
          else if startsWith t '']'' then Some ([v], tl t)
          else None)"
| "parse_members 0 s = None"
| "parse_members (Suc n) s =
     (let t = skip_ws s in
      if \<not> startsWith t [CHR 0x22] then None
      else
        case parse_string_body (tl t) of
          None \<Rightarrow> None
        | Some (k, r) \<Rightarrow>
            let u = skip_ws r in
            if \<not> startsWith u '':'' then None
            else
              case parse_value n (tl u) of
                None \<Rightarrow> None
              | Some (v, r2) \<Rightarrow>
                  let w = skip_ws r2 in
                  if startsWith w '','' then
                    (case parse_members n (tl w) of
                       None \<Rightarrow> None
                     | Some (ms, r3) \<Rightarrow> Some ((k, v) # ms, r3))
                  else if startsWith w ''}'' then Some ([(k, v)], tl w)
                  else None)"

definition json_parse :: "string \<Rightarrow> js_error + json" where
  "json_parse s =
     (case parse_value (Suc (length s)) s of
        None \<Rightarrow> Inl SyntaxError
      | Some (v, r) \<Rightarrow> if skip_ws r = [] then Inr v else Inl SyntaxError)"

section \<open>The inline decoder patch\<close>

subsection \<open>Values and the embedded resources\<close>

text \<open>
  JavaScript values as far as the patch inspects them: \<open>typeof\<close> and truthiness.
  Objects and functions are opaque and carry an identity.
\<close>

datatype jsval = Undefined | Null | Str string | Object nat | Function nat

fun typeof :: "jsval \<Rightarrow> string" where
  "typeof Undefined = ''undefined''"
| "typeof Null = ''object''"
| "typeof (Str s) = ''string''"
| "typeof (Object i) = ''object''"
| "typeof (Function i) = ''function''"

fun truthy :: "jsval \<Rightarrow> bool" where
  "truthy Undefined = False"
| "truthy Null = False"
| "truthy (Str s) = (s \<noteq> [])"
| "truthy (Object i) = True"
| "truthy (Function i) = True"

text \<open>
  The build-time globals \<open>window.__DRACO_WASM_BINARY__\<close> and
  \<open>window.__DRACO_DECODER_CODE__\<close>, and the blob URLs derived from them at load time.
  \<open>None\<close> is an unset global; a string is truthy when it is not empty.
\<close>

record registry =
  DRACO_WASM_BINARY :: "8 word list option"
  DRACO_DECODER_CODE :: "string option"
  DRACO_WASM_BLOB_URL :: "string option"
  DRACO_DECODER_BLOB_URL :: "string option"

definition truthy_str :: "string option \<Rightarrow> bool" where
  "truthy_str v = (case v of None \<Rightarrow> False | Some s \<Rightarrow> s \<noteq> [])"

definition nth_arg :: "jsval list \<Rightarrow> nat \<Rightarrow> jsval" where
  "nth_arg args i = (if i < length args then args ! i else Undefined)"

subsection \<open>The worker bootstrap: the patched \<open>Blob\<close> constructor\<close>

datatype blob_part = StringPart string | BinaryPart "8 word list"

datatype blob_options = NoOptions | Options "string option"






subsection \<open>The patched \<open>fetch\<close>\<close>

datatype fetch_result =
    OriginalFetchApply "jsval list"
  | OriginalFetchCall string
  | ResolveResponse "8 word list + string" string
  | RejectWith js_error

definition patched_fetch :: "registry \<Rightarrow> jsval list \<Rightarrow> fetch_result" where
  "patched_fetch g args =
     (case nth_arg args 0 of
        Str url \<Rightarrow>
          if isDracoFile url then
            (if indexOf url ''draco.wasm.wasm'' \<noteq> - 1 \<or> indexOf url ''draco_decoder.wasm'' \<noteq> - 1 then
               (if truthy_str (DRACO_WASM_BLOB_URL g)
                then OriginalFetchCall (the (DRACO_WASM_BLOB_URL g))
                else case DRACO_WASM_BINARY g of
                       Some b \<Rightarrow> ResolveResponse (Inl b) ''application/wasm''
                     | None \<Rightarrow> RejectWith (Error ''Draco WASM not embedded''))
             else if indexOf url ''draco.wasm.js'' \<noteq> - 1 \<or> indexOf url ''draco.js'' \<noteq> - 1 then
               (if truthy_str (DRACO_DECODER_BLOB_URL g)
                then OriginalFetchCall (the (DRACO_DECODER_BLOB_URL g))
                else if truthy_str (DRACO_DECODER_CODE g)
                then ResolveResponse (Inr (the (DRACO_DECODER_CODE g))) ''text/javascript''
                else RejectWith (Error ''Draco decoder not embedded''))
             else RejectWith (Error ''Unknown Draco file''))
          else OriginalFetchApply args
      | _ \<Rightarrow> OriginalFetchApply args)"

subsection \<open>The patched \<open>XMLHttpRequest\<close>\<close>

text \<open>
  An instance carries the flag \<open>__dracoBlocked\<close> (unset on a new instance) and the caller's
  \<open>onerror\<close> handler, if any. The patched methods either apply the original method to
  the original arguments or, in \<open>send\<close>, schedule a timer task; when the timer fires, the
  task calls \<open>onerror\<close> if it is set then.
\<close>

record xhr =
  dracoBlocked :: bool
  onerror :: "nat option"

datatype xhr_effect =
    OriginalOpen "jsval list"
  | OriginalSend "jsval list"
  | SetTimeout0
  | CallOnError nat js_error

definition new_xhr :: xhr where
  "new_xhr = \<lparr>dracoBlocked = False, onerror = None\<rparr>"

definition xhr_open :: "xhr \<Rightarrow> jsval list \<Rightarrow> xhr \<times> xhr_effect list" where
  "xhr_open this args =
     ((case nth_arg args 1 of
         Str url \<Rightarrow> if isDracoFile url then this\<lparr>dracoBlocked := True\<rparr> else this
       | _ \<Rightarrow> this),
      [OriginalOpen args])"

definition xhr_send :: "xhr \<Rightarrow> jsval list \<Rightarrow> xhr \<times> xhr_effect list" where
  "xhr_send this args =
     (if dracoBlocked this then (this, [SetTimeout0])
      else (this, [OriginalSend args]))"

definition xhr_timer_fires :: "xhr \<Rightarrow> xhr_effect list" where
  "xhr_timer_fires this =
     (case onerror this of
        Some h \<Rightarrow> [CallOnError h (Error ''Draco files are embedded inline'')]
      | None \<Rightarrow> [])"

text \<open>What can happen to one instance, in any order.\<close>

datatype xhr_op = Open "jsval list" | Send "jsval list" | SetOnError "nat option" | TimerFires

fun xhr_step :: "xhr_op \<Rightarrow> xhr \<Rightarrow> xhr \<times> xhr_effect list" where
  "xhr_step (Open args) this = xhr_open this args"
| "xhr_step (Send args) this = xhr_send this args"
| "xhr_step (SetOnError h) this = (this\<lparr>onerror := h\<rparr>, [])"
| "xhr_step TimerFires this = (this, xhr_timer_fires this)"

fun xhr_run :: "xhr_op list \<Rightarrow> xhr \<Rightarrow> xhr \<times> xhr_effect list" where
  "xhr_run [] this = (this, [])"
| "xhr_run (op # ops) this =
     (let (this', es) = xhr_step op this; (this'', es') = xhr_run ops this'
      in (this'', es @ es'))"

subsection \<open>The initialization controller: \<open>initDracoDecoder\<close>\<close>

text \<open>
  The page state the controller and the asset-loader shims read and write: the closure
  variable \<open>DracoDecoderModule\<close> of the patch (assigned once, at load time), the global slots
  \<open>window.DracoDecoderModule\<close> and \<open>window.__DRACO_INITIALIZED_MODULE__\<close>, the record
  \<open>window.__DRACO_DECODER_STATE__\<close>, and the promises created so far (a promise is its
  index). \<open>factory_calls\<close> lists the configurations the factory was invoked with, and
  \<open>factory_waiter\<close> is the promise whose \<open>resolve\<close>/\<open>reject\<close> are registered on the
  factory's pending promise.
\<close>

datatype promise_state = Pending | Fulfilled jsval | Rejected js_error

record decoder_state =
  wasmBinary :: jsval
  decoderModule :: jsval
  initPromise :: "nat option"
  isReady :: bool
  useWasm :: bool

record page =
  local_DracoDecoderModule :: jsval
  window_DracoDecoderModule :: jsval
  window_DRACO_INITIALIZED_MODULE :: jsval
  DRACO_DECODER_STATE :: decoder_state
  promises :: "promise_state list"
  factory_calls :: "jsval list"
  factory_waiter :: "nat option"

text \<open>
  Loading the patch: \<open>var DracoDecoderModule = window.DracoDecoderModule || {}\<close>, and the
  same value is stored back into the global slot. The first argument is the global as the
  page left it before the patch ran: unset, a configuration object, or the factory
  function when the glue code was loaded first. \<open>Object 0\<close> is the new empty object.
\<close>

definition load_patch :: "jsval \<Rightarrow> bool \<Rightarrow> page" where
  "load_patch g wasm_supported =
     (let dm = (if truthy g then g else Object 0) in
      \<lparr>local_DracoDecoderModule = dm,
       window_DracoDecoderModule = dm,
       window_DRACO_INITIALIZED_MODULE = Undefined,
       DRACO_DECODER_STATE =
         \<lparr>wasmBinary = Null, decoderModule = Null, initPromise = None, isReady = False,
          useWasm = wasm_supported\<rparr>,
       promises = [],
       factory_calls = [],
       factory_waiter = None\<rparr>)"

text \<open>\<open>resolve\<close> and \<open>reject\<close> settle a pending promise and do nothing to a settled one.\<close>

definition settle :: "nat \<Rightarrow> promise_state \<Rightarrow> page \<Rightarrow> page" where
  "settle p s w =
     (if p < length (promises w) \<and> promises w ! p = Pending
      then w\<lparr>promises := (promises w)[p := s]\<rparr> else w)"

text \<open>
  \<open>initDracoDecoder()\<close> returns a promise. The first argument is what the call of the
  factory does synchronously, should it happen: it returns its promise (\<open>None\<close>) or throws.
\<close>

definition initDracoDecoder :: "js_error option \<Rightarrow> page \<Rightarrow> nat \<times> page" where
  "initDracoDecoder factory_throws w =
     (case initPromise (DRACO_DECODER_STATE w) of
        Some p \<Rightarrow> (p, w)
      | None \<Rightarrow>
          let p = length (promises w);
              w1 = w\<lparr>promises := promises w @ [Pending]\<rparr>;
              w2 =
                (if typeof (local_DracoDecoderModule w1) \<noteq> ''function'' \<and>
                    typeof (window_DracoDecoderModule w1) \<noteq> ''object''
                 then settle p (Rejected (Error ''DracoDecoderModule not loaded'')) w1
                 else
                   let moduleConfig =
                         (if truthy (window_DracoDecoderModule w1)
                          then window_DracoDecoderModule w1 else local_DracoDecoderModule w1)
                   in
                   if typeof (local_DracoDecoderModule w1) = ''function'' then
                     (let w' = w1\<lparr>factory_calls := factory_calls w1 @ [moduleConfig]\<rparr> in
                      case factory_throws of
                        Some e \<Rightarrow> settle p (Rejected e) w'
                      | None \<Rightarrow> w'\<lparr>factory_waiter := Some p\<rparr>)
                   else
                     settle p (Fulfilled moduleConfig)
                       (w1\<lparr>DRACO_DECODER_STATE :=
                             (DRACO_DECODER_STATE w1)\<lparr>decoderModule := moduleConfig, isReady := True\<rparr>\<rparr>))
          in (p, w2\<lparr>DRACO_DECODER_STATE := (DRACO_DECODER_STATE w2)\<lparr>initPromise := Some p\<rparr>\<rparr>))"

text \<open>The handlers registered on the factory's promise: \<open>.then(...)\<close> and \<open>.catch(reject)\<close>.\<close>

definition factory_fulfils :: "jsval \<Rightarrow> page \<Rightarrow> page" where
  "factory_fulfils m w =
     (case factory_waiter w of
        None \<Rightarrow> w
      | Some p \<Rightarrow>
          settle p (Fulfilled m)
            (w\<lparr>DRACO_DECODER_STATE := (DRACO_DECODER_STATE w)\<lparr>decoderModule := m, isReady := True\<rparr>,
               window_DRACO_INITIALIZED_MODULE := m,
               factory_waiter := None\<rparr>))"

definition factory_rejects :: "js_error \<Rightarrow> page \<Rightarrow> page" where
  "factory_rejects e w =
     (case factory_waiter w of
        None \<Rightarrow> w
      | Some p \<Rightarrow> settle p (Rejected e) (w\<lparr>factory_waiter := None\<rparr>))"

text \<open>
  The three asset-loader shims (\<open>ContainerHandler.open\<close>, \<open>ContainerHandler._parse\<close>,
  \<open>GlbParser.parse\<close>) run the same statement before they call the original method.
\<close>

definition inject_decoder :: "page \<Rightarrow> page" where
  "inject_decoder w =
     (if isReady (DRACO_DECODER_STATE w) \<and> truthy (decoderModule (DRACO_DECODER_STATE w))
      then w\<lparr>window_DracoDecoderModule := decoderModule (DRACO_DECODER_STATE w)\<rparr>
      else w)"

datatype event =
    CallInit "js_error option"
  | FactoryFulfils jsval
  | FactoryRejects js_error
  | ContainerHandler_open
  | ContainerHandler_parse
  | GlbParser_parse

fun step :: "event \<Rightarrow> page \<Rightarrow> page \<times> nat list" where
  "step (CallInit ft) w = (let (p, w') = initDracoDecoder ft w in (w', [p]))"
| "step (FactoryFulfils m) w = (factory_fulfils m w, [])"
| "step (FactoryRejects e) w = (factory_rejects e w, [])"
| "step ContainerHandler_open w = (inject_decoder w, [])"
| "step ContainerHandler_parse w = (inject_decoder w, [])"
| "step GlbParser_parse w = (inject_decoder w, [])"

text \<open>A run returns the final page and the promises the calls of \<open>initDracoDecoder\<close> returned.\<close>

fun run :: "event list \<Rightarrow> page \<Rightarrow> page \<times> nat list" where
  "run [] w = (w, [])"
| "run (e # es) w =
     (let (w', ps) = step e w; (w'', ps') = run es w' in (w'', ps @ ps'))"

subsection \<open>The \<open>instantiateWasm\<close> hook\<close>

text \<open>
  \<open>WebAssembly.instantiate\<close> is a platform primitive: its promise fulfils with an instance
  and a module, or rejects. The hook reports to the glue code through its return value
  and through \<open>successCallback\<close> only; everything else goes to the console.
\<close>

datatype instantiate_result = InstantiateOk jsval jsval | InstantiateFails js_error

record hook_report =
  returned :: jsval
  successCallback_args :: "(jsval \<times> jsval) option"
  console_errors :: "js_error list"

definition instantiateWasm ::
  "8 word list option \<Rightarrow> 8 word list option \<Rightarrow> (8 word list \<Rightarrow> instantiate_result) \<Rightarrow> hook_report" where
  "instantiateWasm module_wasmBinary window_wasmBinary instantiate =
     (case (case module_wasmBinary of Some b \<Rightarrow> Some b | None \<Rightarrow> window_wasmBinary) of
        None \<Rightarrow>
          \<lparr>returned = Object 0, successCallback_args = None,
           console_errors =
             [Error ''[Draco] WASM binary not available - check if WASM was embedded correctly'',
              Error ''[Draco] Checked DracoDecoderModule.wasmBinary and __DRACO_WASM_BINARY__'']\<rparr>
      | Some wasm_bytes \<Rightarrow>
          (case instantiate wasm_bytes of
             InstantiateOk inst modl \<Rightarrow>
               \<lparr>returned = Object 0, successCallback_args = Some (inst, modl), console_errors = []\<rparr>
           | InstantiateFails err \<Rightarrow>
               \<lparr>returned = Object 0, successCallback_args = None, console_errors = [err]\<rparr>))"

text \<open>
  The factory is the codec's glue code. What it does with the hook is a parameter: a
  function from what the hook hands to it (the return value and the arguments of
  \<open>successCallback\<close>, if it was called) to how the factory's promise settles.
\<close>

datatype settlement = Resolves jsval | RejectsWith js_error | NeverSettles

definition glue_view :: "hook_report \<Rightarrow> jsval \<times> (jsval \<times> jsval) option" where
  "glue_view r = (returned r, successCallback_args r)"

definition deliver :: "settlement \<Rightarrow> page \<Rightarrow> page" where
  "deliver s w =
     (case s of
        Resolves m \<Rightarrow> factory_fulfils m w
      | RejectsWith e \<Rightarrow> factory_rejects e w
      | NeverSettles \<Rightarrow> w)"

definition init_with_factory ::
  "(jsval \<times> (jsval \<times> jsval) option \<Rightarrow> settlement) \<Rightarrow> 8 word list option \<Rightarrow> 8 word list option \<Rightarrow>
   (8 word list \<Rightarrow> instantiate_result) \<Rightarrow> page \<Rightarrow> promise_state" where
  "init_with_factory factory module_wasmBinary window_wasmBinary instantiate w =
     (let (p, w1) = initDracoDecoder None w;
          w2 = deliver (factory (glue_view (instantiateWasm module_wasmBinary window_wasmBinary instantiate))) w1
      in promises w2 ! p)"

text \<open>
  A factory that keeps the contract of the hook: it resolves with its module once
  \<open>successCallback\<close> has been called, and waits until then.
\<close>

definition waiting_factory :: "jsval \<Rightarrow> jsval \<times> (jsval \<times> jsval) option \<Rightarrow> settlement" where
  "waiting_factory m v = (case snd v of Some _ \<Rightarrow> Resolves m | None \<Rightarrow> NeverSettles)"

subsection \<open>Predicates used in the proofs\<close>

text \<open>An \<open>open\<close> whose second argument is a string that matches the codec-file rule.\<close>

definition flags_request :: "xhr_op \<Rightarrow> bool" where
  "flags_request op =
     (case op of
        Open args \<Rightarrow> (case nth_arg args 1 of Str url \<Rightarrow> isDracoFile url | _ \<Rightarrow> False)
      | _ \<Rightarrow> False)"

text \<open>
  The invariant of the controller: before the first call there is no promise and the
  factory was not invoked; afterwards there is exactly the promise 0, the factory was
  invoked at most once, a registered waiter is that pending promise, and \<open>isReady\<close> means
  that the promise is fulfilled with \<open>decoderModule\<close>.
\<close>

definition controller_inv :: "page \<Rightarrow> bool" where
  "controller_inv w =
     (case initPromise (DRACO_DECODER_STATE w) of
        None \<Rightarrow>
          promises w = [] \<and> factory_calls w = [] \<and> factory_waiter w = None \<and>
          \<not> isReady (DRACO_DECODER_STATE w)
      | Some p \<Rightarrow>
          p = 0 \<and> length (promises w) = 1 \<and> length (factory_calls w) \<le> 1 \<and>
          (factory_waiter w = None \<or> (factory_waiter w = Some 0 \<and> promises w ! 0 = Pending)) \<and>
          (\<not> isReady (DRACO_DECODER_STATE w) \<or>
           promises w ! 0 = Fulfilled (decoderModule (DRACO_DECODER_STATE w))))"

section \<open>Properties of the data-URL transport decoder\<close>

text \<open>The definitions that evaluate the string operations, \<open>atob\<close> and the controller.\<close>

lemmas string_eval = isDracoFile_def indexOf_def startsWith_def substring_def slice_js_def
  split_first_def

lemmas atob_eval = atob_def Let_def is_ascii_whitespace_def strip_padding_def b64_value_def
  char_of_eq_iff

lemmas controller_eval = load_patch_def initDracoDecoder_def factory_fulfils_def
  factory_rejects_def inject_decoder_def settle_def Let_def

subsection \<open>Base64 arithmetic\<close>

lemma regroup3:
  fixes qa ra qb rb qc rc :: nat
  shows "((qa * 64 + (ra * 16 + qb)) * 64 + (rb * 4 + qc)) * 64 + rc
      = ((qa * 4 + ra) * 256 + (qb * 16 + rb)) * 256 + (qc * 64 + rc)"
  by simp

lemma recombine3:
  fixes a b c :: nat
  shows "((a div 4 * 64 + (a mod 4 * 16 + b div 16)) * 64 + (b mod 16 * 4 + c div 64)) * 64 + c mod 64
         = (a * 256 + b) * 256 + c"
  using regroup3 [of "a div 4" "a mod 4" "b div 16" "b mod 16" "c div 64" "c mod 64"]
  by (simp only: div_mult_mod_eq)

lemma split3:
  fixes a b c :: nat
  assumes "b < 256" "c < 256"
  shows "((a * 256 + b) * 256 + c) div 65536 = a"
    and "(((a * 256 + b) * 256 + c) div 256) mod 256 = b"
    and "((a * 256 + b) * 256 + c) mod 256 = c"
proof -
  have 1: "((a * 256 + b) * 256 + c) div 256 = a * 256 + b"
    using assms div_mult_self3 [of 256 "a * 256 + b" c] by simp
  have 2: "(a * 256 + b) div 256 = a" "(a * 256 + b) mod 256 = b"
    using assms div_mult_self3 [of 256 a b] mod_mult_self3 [of a 256 b] by simp_all
  show "(((a * 256 + b) * 256 + c) div 256) mod 256 = b" unfolding 1 by (rule 2)
  show "((a * 256 + b) * 256 + c) mod 256 = c"
    using assms mod_mult_self3 [of "a * 256 + b" 256 c] by simp
  have "((a * 256 + b) * 256 + c) div (256 * 256) = (((a * 256 + b) * 256 + c) div 256) div 256"
    by (rule div_mult2_eq)
  then show "((a * 256 + b) * 256 + c) div 65536 = a" unfolding 1 2 by simp
qed

lemma regroup2:
  fixes qa ra qb rb :: nat
  shows "(qa * 64 + (ra * 16 + qb)) * 64 + rb * 4 = ((qa * 4 + ra) * 256 + (qb * 16 + rb)) * 4"
  by simp

lemma recombine2:
  fixes a b :: nat
  shows "((a div 4 * 64 + (a mod 4 * 16 + b div 16)) * 64 + b mod 16 * 4) div 4 = a * 256 + b"
proof -
  have "(a div 4 * 64 + (a mod 4 * 16 + b div 16)) * 64 + b mod 16 * 4 = (a * 256 + b) * 4"
    using regroup2 [of "a div 4" "a mod 4" "b div 16" "b mod 16"]
    by (simp only: div_mult_mod_eq)
  then show ?thesis by simp
qed

lemma split2:
  fixes a b :: nat
  assumes "b < 256"
  shows "(a * 256 + b) div 256 = a" and "(a * 256 + b) mod 256 = b"
  using assms div_mult_self3 [of 256 a b] mod_mult_self3 [of a 256 b] by simp_all

lemma recombine1:
  fixes a :: nat
  shows "(a div 4 * 64 + a mod 4 * 16) div 16 = a"
proof -
  have regroup1: "qa * 64 + ra * 16 = (qa * 4 + ra) * 16" for qa ra :: nat by simp
  have "a div 4 * 64 + a mod 4 * 16 = a * 16"
    using regroup1 [of "a div 4" "a mod 4"] by (simp only: div_mult_mod_eq)
  then show ?thesis by simp
qed


lemma b64_value_char: "n < 64 \<Longrightarrow> b64_value (b64_char n) = Some n"
  by (auto simp: b64_value_def b64_char_def Let_def)

lemma b64_char_not_pad: "n < 64 \<Longrightarrow> b64_char n \<noteq> CHR ''=''"
  using b64_value_char[of n] by (auto simp: b64_value_def)

lemma b64_char_not_ws: "n < 64 \<Longrightarrow> \<not> is_ascii_whitespace (b64_char n)"
  using b64_value_char[of n] by (auto simp: b64_value_def is_ascii_whitespace_def Let_def split: if_splits)

lemma b64_char_not_dot: "n < 64 \<Longrightarrow> b64_char n \<noteq> CHR ''.''"
  using b64_value_char[of n] by (auto simp: b64_value_def)

lemma btoa_bytes_split: "btoa_bytes bs = map b64_char (b64_body bs) @ b64_pad bs"
  by (induction bs rule: btoa_bytes.induct) simp_all

lemma b64_body_bound: "list_all (\<lambda>a. a < 256) bs \<Longrightarrow> list_all (\<lambda>s. s < 64) (b64_body bs)"
proof (induction bs rule: b64_body.induct)
  case (1 a b c rest)
  then have "a < 256" "b < 256" "c < 256" by simp_all
  then have "a div 4 < 64" "(a mod 4) * 16 + b div 16 < 64" "(b mod 16) * 4 + c div 64 < 64" "c mod 64 < 64"
    by arith+
  with 1 show ?case by simp
next
  case (2 a b)
  then have "a < 256" "b < 256" by simp_all
  then have "a div 4 < 64" "(a mod 4) * 16 + b div 16 < 64" "(b mod 16) * 4 < 64"
    by arith+
  then show ?case by simp
next
  case (3 a)
  then have "a < 256" by simp
  then have "a div 4 < 64" "(a mod 4) * 16 < 64" by arith+
  then show ?case by simp
qed simp

lemma b64_pad_cases:
  "(b64_pad bs = [] \<and> length (b64_body bs) mod 4 = 0) \<or>
   (b64_pad bs = ''='' \<and> length (b64_body bs) mod 4 = 3) \<or>
   (b64_pad bs = ''=='' \<and> length (b64_body bs) mod 4 = 2)"
  by (induction bs rule: b64_pad.induct) auto

lemma strip_padding_none:
  "CHR ''='' \<notin> set xs \<Longrightarrow> strip_padding xs = xs"
proof -
  assume a: "CHR ''='' \<notin> set xs"
  have 1: "\<not> (2 \<le> length xs \<and> drop (length xs - 2) xs = ''=='')"
  proof
    assume h: "2 \<le> length xs \<and> drop (length xs - 2) xs = ''==''"
    then have "CHR ''='' \<in> set (drop (length xs - 2) xs)" by simp
    then show False using a by (meson in_set_dropD)
  qed
  have 2: "\<not> (1 \<le> length xs \<and> drop (length xs - 1) xs = ''='')"
  proof
    assume h: "1 \<le> length xs \<and> drop (length xs - 1) xs = ''=''"
    then have "CHR ''='' \<in> set (drop (length xs - 1) xs)" by simp
    then show False using a by (meson in_set_dropD)
  qed
  show ?thesis unfolding strip_padding_def using 1 2 by presburger
qed

lemma strip_padding_one:
  "CHR ''='' \<notin> set xs \<Longrightarrow> length xs mod 4 = 3 \<Longrightarrow> strip_padding (xs @ ''='') = xs"
proof -
  assume a: "CHR ''='' \<notin> set xs" and l: "length xs mod 4 = 3"
  have len: "length (xs @ ''='') mod 4 = 0" using l by (simp add: mod_Suc)
  have ne: "xs \<noteq> []" using l by auto
  have "drop (length (xs @ ''='') - 2) (xs @ ''='') = [last xs, CHR ''='']"
    using ne by (cases xs rule: rev_cases) auto
  moreover have "last xs \<noteq> CHR ''=''" using a ne by (metis last_in_set)
  ultimately have 1: "drop (length (xs @ ''='') - 2) (xs @ ''='') \<noteq> ''==''" by simp
  show ?thesis using 1 len by (simp add: strip_padding_def)
qed

lemma strip_padding_two:
  "length xs mod 4 = 2 \<Longrightarrow> strip_padding (xs @ ''=='') = xs"
proof -
  assume l: "length xs mod 4 = 2"
  have len: "length (xs @ ''=='') mod 4 = 0" using l by (simp add: mod_Suc)
  show ?thesis using len by (simp add: strip_padding_def)
qed

lemma decode_body: "list_all (\<lambda>a. a < 256) bs \<Longrightarrow> decode_sextets (b64_body bs) = bs"
proof (induction bs rule: b64_body.induct)
  case (1 a b c rest)
  then have lt: "b < 256" "c < 256" by simp_all
  from 1 have IH: "decode_sextets (b64_body rest) = rest" by simp
  show ?case
    by (simp only: b64_body.simps decode_sextets.simps Let_def recombine3 split3 [OF lt] IH)
next
  case (2 a b)
  then have lt: "b < 256" by simp
  show ?case
    by (simp only: b64_body.simps decode_sextets.simps Let_def recombine2 split2 [OF lt])
next
  case (3 a)
  show ?case
    by (simp only: b64_body.simps decode_sextets.simps recombine1)
qed simp

lemma strip_btoa:
  assumes "list_all (\<lambda>a. a < 256) bs"
  shows "strip_padding (btoa_bytes bs) = map b64_char (b64_body bs)"
proof -
  let ?X = "map b64_char (b64_body bs)"
  have "list_all (\<lambda>s. s < 64) (b64_body bs)" using assms by (rule b64_body_bound)
  then have nopad: "CHR ''='' \<notin> set ?X"
    using b64_char_not_pad by (fastforce simp: list_all_iff)
  have len: "length ?X = length (b64_body bs)" by simp
  from b64_pad_cases [of bs] show ?thesis
    unfolding btoa_bytes_split
    using nopad strip_padding_none [of ?X] strip_padding_one [of ?X] strip_padding_two [of ?X] len
    by auto
qed

lemma atob_btoa:
  assumes "list_all (\<lambda>a. a < 256) bs"
  shows "atob (btoa_bytes bs) = Inr (map char_of bs)"
proof -
  let ?X = "map b64_char (b64_body bs)"
  have bound: "list_all (\<lambda>s. s < 64) (b64_body bs)" using assms by (rule b64_body_bound)
  have "\<forall>c \<in> set ?X. \<not> is_ascii_whitespace c"
    using bound b64_char_not_ws by (fastforce simp: list_all_iff)
  moreover have "\<forall>c \<in> set (b64_pad bs). \<not> is_ascii_whitespace c"
    using b64_pad_cases [of bs] by (auto simp: is_ascii_whitespace_def)
  ultimately have "\<forall>c \<in> set (btoa_bytes bs). \<not> is_ascii_whitespace c"
    unfolding btoa_bytes_split by auto
  then have filt: "filter (\<lambda>c. \<not> is_ascii_whitespace c) (btoa_bytes bs) = btoa_bytes bs"
    by (simp add: filter_id_conv)
  have lenX: "length ?X mod 4 \<noteq> 1" using b64_pad_cases [of bs] by auto
  have good: "\<not> list_ex (\<lambda>c. b64_value c = None) ?X"
    using bound by (auto simp: list_ex_iff list_all_iff b64_value_char)
  have vals: "map (\<lambda>c. the (b64_value c)) ?X = b64_body bs"
    using bound by (induction "b64_body bs" arbitrary: bs) (auto simp: list_all_iff b64_value_char map_idI)
  show ?thesis
    unfolding atob_def filt strip_btoa [OF assms] Let_def
    using lenX good vals decode_body [OF assms] by simp
qed


lemma startsWith_set: "startsWith s p \<Longrightarrow> set p \<subseteq> set s"
  unfolding startsWith_def by (metis set_take_subset)

lemma indexOf_from_absent:
  "c \<in> set p \<Longrightarrow> c \<notin> set s \<Longrightarrow> indexOf_from i s p = - 1"
proof (induction s arbitrary: i)
  case Nil
  then show ?case by auto
next
  case (Cons x xs)
  have "\<not> startsWith (x # xs) p" using Cons.prems startsWith_set by blast
  then show ?case using Cons by simp
qed

lemma indexOf_absent: "c \<in> set p \<Longrightarrow> c \<notin> set s \<Longrightarrow> indexOf s p = - 1"
  unfolding indexOf_def by (rule indexOf_from_absent)

lemma isDracoFile_needs_dot: "CHR ''.'' \<notin> set url \<Longrightarrow> \<not> isDracoFile url"
  unfolding isDracoFile_def
  using indexOf_absent [of "CHR ''.''" "''draco.wasm.js''" url]
        indexOf_absent [of "CHR ''.''" "''draco.wasm.wasm''" url]
        indexOf_absent [of "CHR ''.''" "''draco.js''" url]
  by simp

lemma indexOf_from_first:
  "c \<notin> set xs \<Longrightarrow> indexOf_from i (xs @ c # ys) [c] = int (i + length xs)"
  by (induction xs arbitrary: i) (auto simp: startsWith_def)

lemma btoa_bytes_no_dot:
  assumes "list_all (\<lambda>a. a < 256) bs"
  shows "CHR ''.'' \<notin> set (btoa_bytes bs)"
proof -
  have bound: "list_all (\<lambda>s. s < 64) (b64_body bs)" using assms by (rule b64_body_bound)
  then have "CHR ''.'' \<notin> set (map b64_char (b64_body bs))"
    using b64_char_not_dot by (fastforce simp: list_all_iff)
  moreover have "CHR ''.'' \<notin> set (b64_pad bs)"
    using b64_pad_cases [of bs] by auto
  ultimately show ?thesis unfolding btoa_bytes_split by simp
qed

lemma unat_bytes_bound: "list_all (\<lambda>a. a < 256) (map unat (bs :: 8 word list))"
proof -
  have "unat b < 256" for b :: "8 word" using unsigned_less [of b, where 'a = nat] by simp
  then show ?thesis by (simp add: list_all_iff)
qed

lemma bytes_of_binary_string:
  "map (\<lambda>c. of_nat (of_char c)) (map char_of (map unat bs)) = (bs :: 8 word list)"
proof -
  have "of_nat (of_char (char_of (unat b))) = b" for b :: "8 word"
  proof -
    have "unat b < 256" using unsigned_less [of b, where 'a = nat] by simp
    then have "(of_char (char_of (unat b)) :: nat) = unat b" by simp
    then show ?thesis by simp
  qed
  then show ?thesis by (simp add: map_idI comp_def)
qed

lemma bytes_of_binary_string':
  "map ((\<lambda>c. of_nat (of_char c)) \<circ> (char_of \<circ> unat)) bs = (bs :: 8 word list)"
  using bytes_of_binary_string [of bs] by (simp add: comp_def)

lemma octet_url_parts:
  fixes e :: string
  defines "url \<equiv> ''data:application/octet-stream;base64,'' @ e"
  shows "startsWith url ''data:''"
    and "\<not> startsWith url ''data:application/json''"
    and "\<not> startsWith url ''data:text/plain''"
    and "\<not> startsWith url ''data:text/javascript''"
    and "\<not> startsWith url ''data:image/''"
    and "indexOf url '','' = 36"
    and "slice_js url 37 = e"
  unfolding url_def
  using indexOf_from_first [of "CHR '',''" "''data:application/octet-stream;base64''" 0 e]
  by (simp_all add: startsWith_def indexOf_def slice_js_def)

text \<open>
  C8. Round-trip: for every byte sequence \<open>bs\<close>, the base64 data URL of \<open>bs\<close> with MIME
  type \<open>application/octet-stream\<close>, passed to \<open>get\<close>, reaches the callback as
  \<open>(null, buffer)\<close> where the buffer holds exactly \<open>bs\<close>. The options must not ask for
  \<open>responseType\<close> JSON, which would send the decoded bytes to \<open>JSON.parse\<close> instead.
\<close>

theorem get_octet_stream_round_trip:
  assumes "options \<noteq> OptionsObject (Some JSON)"
  shows "get JSON_parse (octet_stream_data_url bs) options =
           Callback (case options of OptionsFunction \<Rightarrow> OptionsArgument
                                   | OptionsObject _ \<Rightarrow> CallbackArgument)
                    None (RArrayBuffer bs)"
proof -
  let ?e = "base64_encode bs"
  let ?url = "octet_stream_data_url bs"
  have b: "list_all (\<lambda>a. a < 256) (map unat bs)" by (rule unat_bytes_bound)
  have "CHR ''.'' \<notin> set ?url"
    using btoa_bytes_no_dot [OF b] by (simp add: octet_stream_data_url_def base64_encode_def)
  then have nd: "\<not> isDracoFile ?url" by (rule isDracoFile_needs_dot)
  have dec: "atob ?e = Inr (map char_of (map unat bs))"
    unfolding base64_encode_def by (rule atob_btoa [OF b])
  have rt: "(case options of OptionsFunction \<Rightarrow> None | OptionsObject rt \<Rightarrow> rt) \<noteq> Some JSON"
    using assms by (cases options) auto
  note parts = octet_url_parts [of ?e, folded octet_stream_data_url_def]
  show ?thesis
    unfolding get_def Let_def
    using nd rt by (simp add: parts dec bytes_of_binary_string')
qed

theorem get_octet_stream_round_trip_witness:
  "OptionsObject None \<noteq> OptionsObject (Some JSON) \<and>
   get json_parse (octet_stream_data_url [72, 105, 255]) (OptionsObject None) =
     Callback CallbackArgument None (RArrayBuffer [72, 105, 255])"
  using get_octet_stream_round_trip [of "OptionsObject None" json_parse "[72, 105, 255]"]
  by simp

subsection \<open>Malformed identifiers\<close>

text \<open>
  The two format checks report through the callback: for an identifier that matches no
  codec-file rule and that does not start with \<open>data:\<close>, or contains no comma, \<open>get\<close>
  calls back with an \<open>Error\<close> and \<open>null\<close> data and returns normally.
\<close>

lemma get_invalid_format_callback:
  assumes "\<not> isDracoFile url"
    and "\<not> startsWith url ''data:'' \<or> indexOf url '','' = - 1"
  shows "get JSON_parse url options =
           Callback (case options of OptionsFunction \<Rightarrow> OptionsArgument
                                   | OptionsObject _ \<Rightarrow> CallbackArgument)
                    (Some (Error (if startsWith url ''data:'' then ''Invalid data URL''
                                  else ''Invalid data URL format'')))
                    RNull"
  using assms unfolding get_def Let_def by auto

text \<open>
  C9 fails on the code. The identifier \<open>data:application/octet-stream;base64,<not base64>\<close>
  contains none of the codec-file fragments and is not a well-formed data URI: it
  announces base64, and its payload holds characters that neither base64 nor a URI
  allows. It has the prefix and a comma, so both format checks pass, and \<open>atob\<close> raises
  \<open>InvalidCharacterError\<close>, which leaves \<open>get\<close> as an exception; the callback is not
  invoked. The same text without its comma, or without its prefix, takes one of the two
  checked paths and reaches the callback's error argument.
\<close>

theorem get_malformed_payload_throws:
  "indexOf ''data:application/octet-stream;base64,<not base64>'' ''draco.wasm.js'' = - 1 \<and>
   indexOf ''data:application/octet-stream;base64,<not base64>'' ''draco.wasm.wasm'' = - 1 \<and>
   indexOf ''data:application/octet-stream;base64,<not base64>'' ''draco.js'' = - 1 \<and>
   startsWith ''data:application/octet-stream;base64,<not base64>'' ''data:'' \<and>
   indexOf ''data:application/octet-stream;base64,<not base64>'' '','' = 36 \<and>
   atob ''<not base64>'' = Inl InvalidCharacterError \<and>
   get json_parse ''data:application/octet-stream;base64,<not base64>'' (OptionsObject None) =
     Throws InvalidCharacterError \<and>
   get json_parse ''data:application/octet-stream;base64'' (OptionsObject None) =
     Callback CallbackArgument (Some (Error ''Invalid data URL'')) RNull \<and>
   get json_parse ''application/octet-stream;base64,<not base64>'' (OptionsObject None) =
     Callback CallbackArgument (Some (Error ''Invalid data URL format'')) RNull"
  by (simp add: get_def string_eval atob_eval)

subsection \<open>The JSON scenario\<close>

text \<open>
  C2 as stated fails. \<open>get\<close> never percent-decodes: the payload \<open>%7B%22a%22%3A1%7D\<close> goes
  to \<open>atob\<close>, where \<open>%\<close> is outside the base64 alphabet, and the exception leaves \<open>get\<close>
  before \<open>JSON.parse\<close> is reached.
\<close>

theorem get_percent_encoded_json_throws:
  "get json_parse ''data:application/json,%7B%22a%22%3A1%7D'' (OptionsObject None) =
     Throws InvalidCharacterError"
  by (simp add: get_def string_eval atob_eval)

text \<open>
  C2 (amended). With the same JSON text \<open>{"a":1}\<close> as a base64 payload,
  \<open>get("data:application/json;base64,eyJhIjoxfQ==", {}, cb)\<close> invokes \<open>cb(null, {a: 1})\<close>:
  the payload after the comma is decoded by \<open>atob\<close> and parsed by \<open>JSON.parse\<close>, of which
  only its value on that text is assumed.
\<close>

theorem get_base64_json_scenario:
  assumes "JSON_parse ''{\"a\":1}'' = Inr (JObject [(''a'', JNumber 1)])"
  shows "get JSON_parse ''data:application/json;base64,eyJhIjoxfQ=='' (OptionsObject None) =
           Callback CallbackArgument None (RJson (JObject [(''a'', JNumber 1)]))"
proof -
  have url: "\<not> isDracoFile ''data:application/json;base64,eyJhIjoxfQ==''"
    "startsWith ''data:application/json;base64,eyJhIjoxfQ=='' ''data:''"
    "startsWith ''data:application/json;base64,eyJhIjoxfQ=='' ''data:application/json''"
    "indexOf ''data:application/json;base64,eyJhIjoxfQ=='' '','' = 28"
    "slice_js ''data:application/json;base64,eyJhIjoxfQ=='' 29 = ''eyJhIjoxfQ==''"
    by (simp_all add: string_eval)
  have dec: "atob ''eyJhIjoxfQ=='' = Inr ''{\"a\":1}''"
    by (simp add: atob_eval)
  show ?thesis
    unfolding get_def Let_def using assms by (simp add: url dec)
qed

text \<open>The amended C2 with the reference parser for \<open>JSON.parse\<close>.\<close>

theorem get_base64_json_scenario_witness:
  "json_parse ''{\"a\":1}'' = Inr (JObject [(''a'', JNumber 1)]) \<and>
   get json_parse ''data:application/json;base64,eyJhIjoxfQ=='' (OptionsObject None) =
     Callback CallbackArgument None (RJson (JObject [(''a'', JNumber 1)]))"
proof -
  have j: "json_parse ''{\"a\":1}'' = Inr (JObject [(''a'', JNumber 1)])" by code_simp
  from get_base64_json_scenario [of json_parse, OF j] j show ?thesis by simp
qed

section \<open>Properties of the transport interception\<close>

subsection \<open>The blocking flag of a request\<close>

lemma xhr_open_not_matching:
  "\<not> isDracoFile url \<Longrightarrow>
   xhr_open this (mth # Str url # rest) = (this, [OriginalOpen (mth # Str url # rest)])"
  by (simp add: xhr_open_def nth_arg_def)

lemma xhr_open_matching:
  "isDracoFile url \<Longrightarrow>
   xhr_open this (mth # Str url # rest) =
     (this\<lparr>dracoBlocked := True\<rparr>, [OriginalOpen (mth # Str url # rest)])"
  by (simp add: xhr_open_def nth_arg_def)

lemma xhr_step_keeps_flag: "dracoBlocked this \<Longrightarrow> dracoBlocked (fst (xhr_step op this))"
  by (cases op) (auto simp: xhr_open_def xhr_send_def split: jsval.splits)

lemma xhr_step_blocked_no_send:
  "dracoBlocked this \<Longrightarrow> OriginalSend a \<notin> set (snd (xhr_step op this))"
  by (cases op) (auto simp: xhr_open_def xhr_send_def xhr_timer_fires_def split: option.splits)

lemma xhr_run_keeps_flag: "dracoBlocked this \<Longrightarrow> dracoBlocked (fst (xhr_run ops this))"
proof (induction ops arbitrary: this)
  case Nil
  then show ?case by simp
next
  case (Cons op ops)
  from Cons.prems have "dracoBlocked (fst (xhr_step op this))" by (rule xhr_step_keeps_flag)
  then have "dracoBlocked (fst (xhr_run ops (fst (xhr_step op this))))" by (rule Cons.IH)
  then show ?case by (simp add: split_beta)
qed

lemma xhr_run_blocked_no_send:
  "dracoBlocked this \<Longrightarrow> OriginalSend a \<notin> set (snd (xhr_run ops this))"
proof (induction ops arbitrary: this)
  case Nil
  then show ?case by simp
next
  case (Cons op ops)
  from Cons.prems have 1: "dracoBlocked (fst (xhr_step op this))" by (rule xhr_step_keeps_flag)
  from Cons.prems have 2: "OriginalSend a \<notin> set (snd (xhr_step op this))"
    by (rule xhr_step_blocked_no_send)
  from 1 have "OriginalSend a \<notin> set (snd (xhr_run ops (fst (xhr_step op this))))" by (rule Cons.IH)
  with 2 show ?case by (simp add: split_beta)
qed

lemma xhr_run_append:
  "xhr_run (ops @ ops') this =
     (fst (xhr_run ops' (fst (xhr_run ops this))),
      snd (xhr_run ops this) @ snd (xhr_run ops' (fst (xhr_run ops this))))"
  by (induction ops arbitrary: this) (simp_all add: split_beta)

lemma xhr_step_unflagged:
  "\<not> dracoBlocked this \<Longrightarrow> \<not> flags_request op \<Longrightarrow> \<not> dracoBlocked (fst (xhr_step op this))"
  by (cases op) (auto simp: xhr_open_def xhr_send_def flags_request_def split: jsval.splits)

lemma xhr_run_unflagged:
  "\<not> dracoBlocked this \<Longrightarrow> \<not> list_ex flags_request ops \<Longrightarrow> \<not> dracoBlocked (fst (xhr_run ops this))"
proof (induction ops arbitrary: this)
  case Nil
  then show ?case by simp
next
  case (Cons op ops)
  then have "\<not> dracoBlocked (fst (xhr_step op this))" by (simp add: xhr_step_unflagged)
  moreover from Cons.prems have "\<not> list_ex flags_request ops" by simp
  ultimately have "\<not> dracoBlocked (fst (xhr_run ops (fst (xhr_step op this))))" by (rule Cons.IH)
  then show ?case by (simp add: split_beta)
qed

subsection \<open>Pass-through\<close>

text \<open>
  What does pass through for an identifier that matches no codec-file rule: the patched
  \<open>fetch\<close> and the patched \<open>open\<close> apply the originals to exactly the original arguments,
  and so does the patched \<open>send\<close> on an instance whose flag is not set, such as a new
  instance that was never opened with a matching identifier.
\<close>

lemma pass_through_not_matching:
  assumes "\<not> isDracoFile url"
  shows "patched_fetch g (Str url # rest) = OriginalFetchApply (Str url # rest) \<and>
         xhr_open this (mth # Str url # rest') = (this, [OriginalOpen (mth # Str url # rest')]) \<and>
         (\<not> dracoBlocked this \<longrightarrow> xhr_send this args = (this, [OriginalSend args])) \<and>
         (\<not> list_ex flags_request ops \<longrightarrow>
            xhr_send (fst (xhr_run ops new_xhr)) args = (fst (xhr_run ops new_xhr), [OriginalSend args]))"
proof -
  have "\<not> list_ex flags_request ops \<Longrightarrow> \<not> dracoBlocked (fst (xhr_run ops new_xhr))"
    by (rule xhr_run_unflagged) (simp_all add: new_xhr_def)
  then show ?thesis
    using assms by (simp add: patched_fetch_def nth_arg_def xhr_open_not_matching xhr_send_def)
qed

text \<open>
  C5 fails on the code for \<open>XMLHttpRequest\<close>. The identifier \<open>a.json\<close> contains none of
  the three fragments. On a new instance, \<open>open\<close> and \<open>send\<close> for it reach the originals
  with the original arguments. On an instance that was opened with \<open>draco.js\<close> before and
  is opened again with \<open>a.json\<close>, the patched \<open>open\<close> leaves the flag of the earlier
  request set, and \<open>send\<close> does not reach the original \<open>send\<close>: it only schedules the
  error task.
\<close>

theorem xhr_reopened_send_not_delegated:
  "indexOf ''a.json'' ''draco.wasm.wasm'' = - 1 \<and>
   indexOf ''a.json'' ''draco.wasm.js'' = - 1 \<and>
   indexOf ''a.json'' ''draco.js'' = - 1 \<and>
   xhr_run [Open [Str ''GET'', Str ''a.json''], Send [Null]] new_xhr =
     (\<lparr>dracoBlocked = False, onerror = None\<rparr>,
      [OriginalOpen [Str ''GET'', Str ''a.json''], OriginalSend [Null]]) \<and>
   xhr_run [Open [Str ''GET'', Str ''draco.js''], Open [Str ''GET'', Str ''a.json''], Send [Null]] new_xhr =
     (\<lparr>dracoBlocked = True, onerror = None\<rparr>,
      [OriginalOpen [Str ''GET'', Str ''draco.js''], OriginalOpen [Str ''GET'', Str ''a.json''],
       SetTimeout0])"
  by (simp add: xhr_open_def xhr_send_def nth_arg_def new_xhr_def string_eval)

subsection \<open>Blocked requests\<close>

text \<open>
  C6. For every instance whose \<open>open\<close> was called with an identifier matching a
  codec-file rule, the following \<open>send\<close> does not call the original \<open>send\<close>: it schedules
  a timer task and returns, and when the timer fires the task calls the caller's
  \<open>onerror\<close> handler (when one is set) with an \<open>Error\<close>. No other handler is called.
\<close>

theorem blocked_request_never_sent:
  assumes "isDracoFile url"
  shows "xhr_run [Open (mth # Str url # rest), Send args, TimerFires] this =
           (this\<lparr>dracoBlocked := True\<rparr>,
            [OriginalOpen (mth # Str url # rest), SetTimeout0] @
            (case onerror this of
               Some h \<Rightarrow> [CallOnError h (Error ''Draco files are embedded inline'')]
             | None \<Rightarrow> []))"
  using assms by (simp add: xhr_open_matching xhr_send_def xhr_timer_fires_def)

text \<open>C6 at the identifier \<open>https://cdn/draco.wasm.js\<close>, with an \<open>onerror\<close> handler.\<close>

theorem blocked_request_never_sent_witness:
  "isDracoFile ''https://cdn/draco.wasm.js'' \<and>
   xhr_run [Open [Str ''GET'', Str ''https://cdn/draco.wasm.js'', Object 1], Send [Null], TimerFires]
       \<lparr>dracoBlocked = False, onerror = Some 7\<rparr> =
     (\<lparr>dracoBlocked = True, onerror = Some 7\<rparr>,
      [OriginalOpen [Str ''GET'', Str ''https://cdn/draco.wasm.js'', Object 1], SetTimeout0,
       CallOnError 7 (Error ''Draco files are embedded inline'')])"
proof -
  have 1: "isDracoFile ''https://cdn/draco.wasm.js''" by (simp add: string_eval)
  from blocked_request_never_sent [OF 1, where mth = "Str ''GET''" and rest = "[Object 1]"
      and args = "[Null]" and this = "\<lparr>dracoBlocked = False, onerror = Some 7\<rparr>"] 1
  show ?thesis by simp
qed

text \<open>
  C10. Once \<open>open\<close> was called on an instance with an identifier matching a codec-file
  rule, the flag stays set whatever happens to the instance afterwards (further calls of
  \<open>open\<close> with any identifier, \<open>send\<close>, handler assignments, timers): the original
  \<open>send\<close> is never called, and every later \<open>send\<close> only schedules the error task,
  which, when its timer fires, calls the \<open>onerror\<close> handler the instance has then with the
  \<open>Error\<close> of the patch.
\<close>

theorem blocking_flag_never_cleared:
  assumes "isDracoFile url"
  shows "dracoBlocked (fst (xhr_run ops (fst (xhr_open this (mth # Str url # rest))))) \<and>
         xhr_send (fst (xhr_run ops (fst (xhr_open this (mth # Str url # rest))))) args =
           (fst (xhr_run ops (fst (xhr_open this (mth # Str url # rest)))), [SetTimeout0]) \<and>
         OriginalSend a \<notin> set (snd (xhr_run ops (fst (xhr_open this (mth # Str url # rest))))) \<and>
         xhr_run (ops @ [Send args, TimerFires]) (fst (xhr_open this (mth # Str url # rest))) =
           (fst (xhr_run ops (fst (xhr_open this (mth # Str url # rest)))),
            snd (xhr_run ops (fst (xhr_open this (mth # Str url # rest)))) @ [SetTimeout0] @
            (case onerror (fst (xhr_run ops (fst (xhr_open this (mth # Str url # rest))))) of
               Some h \<Rightarrow> [CallOnError h (Error ''Draco files are embedded inline'')]
             | None \<Rightarrow> []))"
proof -
  let ?x = "fst (xhr_open this (mth # Str url # rest))"
  have b: "dracoBlocked ?x" using assms by (simp add: xhr_open_matching)
  have 1: "dracoBlocked (fst (xhr_run ops ?x))" using b by (rule xhr_run_keeps_flag)
  have 2: "OriginalSend a \<notin> set (snd (xhr_run ops ?x))" using b by (rule xhr_run_blocked_no_send)
  have 3: "xhr_run [Send args, TimerFires] (fst (xhr_run ops ?x)) =
             (fst (xhr_run ops ?x),
              [SetTimeout0] @
              (case onerror (fst (xhr_run ops ?x)) of
                 Some h \<Rightarrow> [CallOnError h (Error ''Draco files are embedded inline'')]
               | None \<Rightarrow> []))"
    using 1 by (simp add: xhr_send_def xhr_timer_fires_def)
  from 1 2 3 show ?thesis by (simp add: xhr_send_def xhr_run_append)
qed

text \<open>
  C10 for an instance opened with \<open>draco.js\<close>, opened again with \<open>a.json\<close> and given an
  \<open>onerror\<close> handler: the later \<open>send\<close> ends in that handler.
\<close>

theorem blocking_flag_never_cleared_witness:
  "isDracoFile ''draco.js'' \<and>
   xhr_run ([Open [Str ''GET'', Str ''a.json''], SetOnError (Some 7)] @ [Send [Null], TimerFires])
     (fst (xhr_open new_xhr [Str ''GET'', Str ''draco.js''])) =
     (\<lparr>dracoBlocked = True, onerror = Some 7\<rparr>,
      [OriginalOpen [Str ''GET'', Str ''a.json''], SetTimeout0,
       CallOnError 7 (Error ''Draco files are embedded inline'')])"
proof -
  have 1: "isDracoFile ''draco.js''" by (simp add: string_eval)
  have 2: "\<not> isDracoFile ''a.json''" by (simp add: string_eval)
  have 3: "xhr_run [Open [Str ''GET'', Str ''a.json''], SetOnError (Some 7)]
             (fst (xhr_open new_xhr [Str ''GET'', Str ''draco.js''])) =
           (\<lparr>dracoBlocked = True, onerror = Some 7\<rparr>, [OriginalOpen [Str ''GET'', Str ''a.json'']])"
    using 1 2 by (simp add: xhr_open_def nth_arg_def new_xhr_def)
  from blocking_flag_never_cleared [OF 1,
      where ops = "[Open [Str ''GET'', Str ''a.json''], SetOnError (Some 7)]"
      and this = new_xhr and mth = "Str ''GET''" and rest = "[]" and args = "[Null]"] 1
  show ?thesis unfolding 3 by simp
qed

subsection \<open>The worker bootstrap\<close>




section \<open>Properties of the initialization controller\<close>

subsection \<open>The invariant\<close>

lemma controller_inv_load: "controller_inv (load_patch g ws)"
  by (simp add: controller_inv_def load_patch_def Let_def)

lemma initDracoDecoder_existing:
  "initPromise (DRACO_DECODER_STATE w) = Some p \<Longrightarrow> initDracoDecoder ft w = (p, w)"
  by (simp add: initDracoDecoder_def)

lemma initDracoDecoder_inv:
  assumes "controller_inv w"
  shows "controller_inv (snd (initDracoDecoder ft w)) \<and> fst (initDracoDecoder ft w) = 0"
proof (cases "initPromise (DRACO_DECODER_STATE w)")
  case (Some p)
  with assms show ?thesis by (simp add: initDracoDecoder_def controller_inv_def)
next
  case None
  with assms have e: "promises w = []" "factory_calls w = []" "factory_waiter w = None"
    "\<not> isReady (DRACO_DECODER_STATE w)"
    by (simp_all add: controller_inv_def)
  show ?thesis
    using None e
    by (auto simp: initDracoDecoder_def controller_inv_def settle_def Let_def split: option.splits)
qed

lemma factory_fulfils_inv: "controller_inv w \<Longrightarrow> controller_inv (factory_fulfils m w)"
  by (auto simp: factory_fulfils_def controller_inv_def settle_def split: option.splits)

lemma factory_rejects_inv: "controller_inv w \<Longrightarrow> controller_inv (factory_rejects e w)"
  by (auto simp: factory_rejects_def controller_inv_def settle_def split: option.splits)

lemma inject_decoder_inv: "controller_inv w \<Longrightarrow> controller_inv (inject_decoder w)"
  by (auto simp: inject_decoder_def controller_inv_def split: option.splits)

lemma step_inv:
  "controller_inv w \<Longrightarrow> controller_inv (fst (step e w)) \<and> set (snd (step e w)) \<subseteq> {0}"
  using initDracoDecoder_inv [of w]
  by (cases e)
     (auto simp: split_beta factory_fulfils_inv factory_rejects_inv inject_decoder_inv)

lemma run_inv:
  "controller_inv w \<Longrightarrow> controller_inv (fst (run es w)) \<and> set (snd (run es w)) \<subseteq> {0}"
proof (induction es arbitrary: w)
  case Nil
  then show ?case by simp
next
  case (Cons e es)
  from step_inv [OF Cons.prems, of e]
  have 1: "controller_inv (fst (step e w))" and 2: "set (snd (step e w)) \<subseteq> {0}" by simp_all
  from Cons.IH [OF 1] 2 show ?case by (simp add: split_beta)
qed

text \<open>A settled promise keeps its state.\<close>

lemma settle_settled:
  "promises w \<noteq> [] \<Longrightarrow> promises w ! 0 \<noteq> Pending \<Longrightarrow> promises (settle 0 s w) ! 0 = promises w ! 0"
  by (simp add: settle_def)

lemma step_settled:
  assumes "controller_inv w" "promises w \<noteq> []" "promises w ! 0 \<noteq> Pending"
  shows "promises (fst (step e w)) \<noteq> [] \<and> promises (fst (step e w)) ! 0 = promises w ! 0"
proof -
  from assms obtain p where p: "initPromise (DRACO_DECODER_STATE w) = Some p"
    by (cases "initPromise (DRACO_DECODER_STATE w)") (auto simp: controller_inv_def)
  with assms have w: "factory_waiter w = None"
    by (auto simp: controller_inv_def)
  show ?thesis
    using assms p w
    by (cases e)
       (auto simp: initDracoDecoder_def factory_fulfils_def factory_rejects_def inject_decoder_def)
qed

lemma run_settled:
  assumes "controller_inv w" "promises w \<noteq> []" "promises w ! 0 \<noteq> Pending"
  shows "promises (fst (run es w)) ! 0 = promises w ! 0"
  using assms
proof (induction es arbitrary: w)
  case Nil
  then show ?case by simp
next
  case (Cons e es)
  from step_inv [OF Cons.prems(1), of e] have 1: "controller_inv (fst (step e w))" by simp
  from step_settled [OF Cons.prems, of e]
  have 2: "promises (fst (step e w)) \<noteq> []" and 3: "promises (fst (step e w)) ! 0 = promises w ! 0"
    by simp_all
  from Cons.IH [OF 1 2] 3 Cons.prems(3) show ?case by (simp add: split_beta)
qed

subsection \<open>One initialization\<close>

text \<open>
  C1. After any sequence of calls of \<open>initDracoDecoder\<close>, settlements of the factory's
  promise and asset-loader shims, starting from the freshly loaded patch: the factory
  was invoked at most once and at most one promise was created; every call returned the
  same promise (promise 0); while that promise exists a further call returns it and
  changes nothing; once \<open>isReady\<close> holds the promise is fulfilled with the stored module and
  a further call returns it without invoking the factory; and a settled promise keeps
  its outcome whatever follows, so all callers see the same module or the same failure.
\<close>

theorem initDracoDecoder_single_initialization:
  assumes "run es (load_patch g ws) = (w, ps)"
  shows "length (factory_calls w) \<le> 1 \<and> length (promises w) \<le> 1 \<and> set ps \<subseteq> {0} \<and>
         (initPromise (DRACO_DECODER_STATE w) \<noteq> None \<longrightarrow> initDracoDecoder ft w = (0, w)) \<and>
         (isReady (DRACO_DECODER_STATE w) \<longrightarrow>
            initDracoDecoder ft w = (0, w) \<and>
            promises w ! 0 = Fulfilled (decoderModule (DRACO_DECODER_STATE w))) \<and>
         (promises w \<noteq> [] \<and> promises w ! 0 \<noteq> Pending \<longrightarrow>
            promises (fst (run es' w)) ! 0 = promises w ! 0)"
proof -
  from run_inv [OF controller_inv_load, of es g ws] assms
  have inv: "controller_inv w" and ps: "set ps \<subseteq> {0}" by simp_all
  have calls: "length (factory_calls w) \<le> 1 \<and> length (promises w) \<le> 1"
    using inv by (auto simp: controller_inv_def split: option.splits)
  have again: "initPromise (DRACO_DECODER_STATE w) \<noteq> None \<longrightarrow> initDracoDecoder ft w = (0, w)"
    using inv by (auto simp: controller_inv_def initDracoDecoder_def split: option.splits)
  have ready: "isReady (DRACO_DECODER_STATE w) \<longrightarrow>
            initDracoDecoder ft w = (0, w) \<and>
            promises w ! 0 = Fulfilled (decoderModule (DRACO_DECODER_STATE w))"
    using inv by (auto simp: controller_inv_def initDracoDecoder_def split: option.splits)
  have stable: "promises w \<noteq> [] \<and> promises w ! 0 \<noteq> Pending \<longrightarrow>
            promises (fst (run es' w)) ! 0 = promises w ! 0"
    using run_settled [OF inv] by blast
  from calls ps again ready stable show ?thesis by blast
qed

text \<open>C1 for three calls around the factory's fulfilment, followed by a late rejection.\<close>

theorem initDracoDecoder_single_initialization_witness:
  "snd (run [CallInit None, CallInit None, FactoryFulfils (Object 7), CallInit None]
          (load_patch (Function 1) True)) = [0, 0, 0] \<and>
   factory_calls (fst (run [CallInit None, CallInit None, FactoryFulfils (Object 7), CallInit None]
                         (load_patch (Function 1) True))) = [Function 1] \<and>
   isReady (DRACO_DECODER_STATE
     (fst (run [CallInit None, CallInit None, FactoryFulfils (Object 7), CallInit None]
             (load_patch (Function 1) True)))) \<and>
   fst (initDracoDecoder None
     (fst (run [CallInit None, CallInit None, FactoryFulfils (Object 7), CallInit None]
             (load_patch (Function 1) True)))) = 0 \<and>
   promises (fst (run [FactoryRejects (Error ''late''), ContainerHandler_open, CallInit None]
     (fst (run [CallInit None, CallInit None, FactoryFulfils (Object 7), CallInit None]
             (load_patch (Function 1) True))))) ! 0 = Fulfilled (Object 7)"
proof -
  let ?w = "\<lparr>local_DracoDecoderModule = Function 1,
     window_DracoDecoderModule = Function 1,
     window_DRACO_INITIALIZED_MODULE = Object 7,
     DRACO_DECODER_STATE =
       \<lparr>wasmBinary = Null, decoderModule = Object 7, initPromise = Some 0,
        isReady = True, useWasm = True\<rparr>,
     promises = [Fulfilled (Object 7)], factory_calls = [Function 1],
     factory_waiter = None\<rparr>"
  have r: "run [CallInit None, CallInit None, FactoryFulfils (Object 7), CallInit None]
             (load_patch (Function 1) True) = (?w, [0, 0, 0])"
    by (simp add: controller_eval)
  from initDracoDecoder_single_initialization [OF r, where ft = None
      and es' = "[FactoryRejects (Error ''late''), ContainerHandler_open, CallInit None]"]
  show ?thesis unfolding r by simp
qed

subsection \<open>Failures of the initialization\<close>

text \<open>
  A rejection of the factory's promise and an exception of the factory call reach the
  promise that \<open>initDracoDecoder\<close> returned, and every later caller.
\<close>

lemma factory_rejection_propagates:
  "run [CallInit None, FactoryRejects e, CallInit None] (load_patch (Function f) ws) = (w, ps) \<Longrightarrow>
   ps = [0, 0] \<and> promises w = [Rejected e]"
  by (auto simp: controller_eval)

lemma synchronous_failure_propagates:
  "run [CallInit (Some e), CallInit None] (load_patch (Function f) ws) = (w, ps) \<Longrightarrow>
   ps = [0, 0] \<and> promises w = [Rejected e]"
  by (auto simp: controller_eval)

text \<open>
  C3 fails on the code. When \<open>WebAssembly.instantiate\<close> rejects with \<open>e\<close>, the hook logs
  \<open>e\<close> and hands nothing to the glue code: it returns the same empty object and never
  calls \<open>successCallback\<close>. Whatever the factory does with that, the promise of
  \<open>initDracoDecoder\<close> is the same for every error, so it cannot carry \<open>e\<close>; with a factory
  that waits for \<open>successCallback\<close> it stays pending for ever.
\<close>

theorem instantiation_failure_not_propagated:
  "instantiateWasm (Some b) wb (\<lambda>_. InstantiateFails e) =
     \<lparr>returned = Object 0, successCallback_args = None, console_errors = [e]\<rparr> \<and>
   init_with_factory factory (Some b) wb (\<lambda>_. InstantiateFails e) w =
     init_with_factory factory (Some b) wb (\<lambda>_. InstantiateFails e') w \<and>
   init_with_factory (waiting_factory m) (Some b) wb (\<lambda>_. InstantiateFails e)
     (load_patch (Function f) ws) = Pending"
  by (simp add: instantiateWasm_def init_with_factory_def glue_view_def waiting_factory_def
      deliver_def controller_eval)

text \<open>
  C4 fails on the code. After the factory (\<open>Function 1\<close>) fulfilled its promise with the
  instance \<open>Object 7\<close>, the factory slot still holds the factory and the instance slot the
  instance; the next \<open>ContainerHandler.open\<close> writes the instance into the factory slot.
\<close>

theorem shim_overwrites_factory_slot:
  "window_DracoDecoderModule
     (fst (run [CallInit None, FactoryFulfils (Object 7)] (load_patch (Function 1) True))) = Function 1 \<and>
   window_DRACO_INITIALIZED_MODULE
     (fst (run [CallInit None, FactoryFulfils (Object 7)] (load_patch (Function 1) True))) = Object 7 \<and>
   window_DracoDecoderModule
     (fst (run [CallInit None, FactoryFulfils (Object 7), ContainerHandler_open]
            (load_patch (Function 1) True))) = Object 7"
  by (simp add: controller_eval)

end
